theory Spec2Isabelle
  imports Complex_Main "HOL-Library.Multiset"
begin

section \<open>Data model of the dialogue path ranker\<close>

text \<open>
  The development embeds \<^verbatim>\<open>DialPathRanker\<close> of
  \<^verbatim>\<open>deeppavlov/models/kbqa/kg_dial_generator.py\<close>.

  Conventions of the embedding:
  \<^item> Python numbers (table scores, frequencies, confidences) are real numbers; rounding of
    floating-point arithmetic is not represented, \<^verbatim>\<open>math.log\<close> is the natural logarithm
    on the positive reals and raises \<^verbatim>\<open>ValueError\<close> elsewhere.
  \<^item> An exception is a value \<open>Inl e\<close> of the result type \<open>error + 'a\<close>.
  \<^item> A Python \<^verbatim>\<open>set\<close> is a duplicate-free list. The order in which Python iterates
    over a set is not specified by the language; it is a parameter of the model (the fields
    \<open>types_order\<close>, \<open>scored_order\<close>, \<open>paths_order\<close> below), every theorem that depends on it
    assumes only that the order is a permutation of the elements.
  \<^item> The knowledge-graph service \<^verbatim>\<open>wiki_parser\<close> and the relevance model
    \<^verbatim>\<open>path_ranker\<close> are collaborators outside this file of the repository: they are
    fields of the ranker, arbitrary functions of their arguments.
\<close>

type_synonym path = "string list"

datatype error = IndexError | NameError | ValueError | ZeroDivisionError | TypeError

text \<open>
  An element of an item's entity list is an entity id or, in the nested representation
  (\<^verbatim>\<open>isinstance(entity, list)\<close>), a list of entity ids.
\<close>

datatype entity_item = Entity string | EntityList "string list"

text \<open>
  The answer of \<^verbatim>\<open>wiki_parser\<close> to a single query, that is, element \<open>0\<close> of the
  list it returns. With an API requester the answer carries one more list layer.
\<close>

datatype 'a reply = Plain 'a | Layered "'a list"

record wiki_service =
  find_types :: "string \<Rightarrow> string list reply"
  find_object :: "(string \<times> string \<times> string) list \<Rightarrow> string list list"
  retrieve_paths :: "string \<Rightarrow> path list \<Rightarrow> (path list \<times> string list list) reply"

record dial_path_ranker =
  type_paths :: "string \<rightharpoonup> (path \<times> real) list"
  type_groups :: "string \<rightharpoonup> string list"
  rel_freq :: "string \<rightharpoonup> real list"
  wiki_parser :: wiki_service
  rank_paths :: "string \<Rightarrow> path list \<Rightarrow> (path \<times> real) list"
  max_log_freq :: real
  use_api_requester :: bool
  use_path_stat :: bool
  types_order :: "string list \<Rightarrow> string list"
  scored_order :: "(path \<times> real) list \<Rightarrow> (path \<times> real) list"
  paths_order :: "path list \<Rightarrow> path list"

definition default_max_log_freq :: real where
  "default_max_log_freq = 8"

definition set_order_ok :: "dial_path_ranker \<Rightarrow> bool" where
  "set_order_ok r \<longleftrightarrow>
     (\<forall>xs. mset (types_order r xs) = mset xs) \<and>
     (\<forall>xs. mset (scored_order r xs) = mset xs) \<and>
     (\<forall>xs. mset (paths_order r xs) = mset xs)"

section \<open>Seed entity and entity types\<close>

text \<open>Lines 106-108: the first entity of the list, unwrapped once when nested.\<close>

definition seed_entity :: "entity_item \<Rightarrow> error + string" where
  "seed_entity e =
     (case e of
        Entity s \<Rightarrow> Inr s
      | EntityList [] \<Rightarrow> Inl IndexError
      | EntityList (s # _) \<Rightarrow> Inr s)"

text \<open>
  Lines 111-112 and 167-168: \<^verbatim>\<open>if self.use_api_requester: x = x[0]\<close>. An answer
  whose shape does not fit the configured mode is outside the contract of the service;
  the model fails there with \<open>TypeError\<close>.
\<close>

definition unlayer :: "bool \<Rightarrow> 'a reply \<Rightarrow> error + 'a" where
  "unlayer use_api x =
     (if use_api then
        (case x of
           Layered [] \<Rightarrow> Inl IndexError
         | Layered (y # _) \<Rightarrow> Inr y
         | Plain _ \<Rightarrow> Inl TypeError)
      else
        (case x of
           Plain y \<Rightarrow> Inr y
         | Layered _ \<Rightarrow> Inl TypeError))"

text \<open>Lines 110-113: the set of types of the seed entity.\<close>

definition entity_types :: "dial_path_ranker \<Rightarrow> string \<Rightarrow> error + string list" where
  "entity_types r entity =
     (case unlayer (use_api_requester r) (find_types (wiki_parser r) entity) of
        Inl err \<Rightarrow> Inl err
      | Inr ts \<Rightarrow> Inr (remdups ts))"

section \<open>Candidate paths\<close>

text \<open>\<^verbatim>\<open>self.type_paths.get(entity_type, set())\<close>\<close>

definition lookup_paths :: "dial_path_ranker \<Rightarrow> string \<Rightarrow> (path \<times> real) list" where
  "lookup_paths r entity_type =
     (case type_paths r entity_type of None \<Rightarrow> [] | Some ps \<Rightarrow> ps)"

text \<open>\<^verbatim>\<open>a.union(set(b))\<close> on the list representation of sets.\<close>

definition set_union :: "'a list \<Rightarrow> 'a list \<Rightarrow> 'a list" where
  "set_union a b = remdups (a @ b)"

text \<open>
  Lines 117-122 (and 139-144): the set of (path, score) pairs over the entity types,
  listed, sorted by score with \<^verbatim>\<open>reverse=True\<close>, scores dropped.
\<close>

definition scored_candidates :: "dial_path_ranker \<Rightarrow> string list \<Rightarrow> (path \<times> real) list" where
  "scored_candidates r types =
     fold (\<lambda>entity_type acc. set_union acc (lookup_paths r entity_type))
       (types_order r types) []"

definition sorted_candidates :: "dial_path_ranker \<Rightarrow> string list \<Rightarrow> (path \<times> real) list" where
  "sorted_candidates r types =
     sort_key (\<lambda>x. - snd x) (scored_order r (scored_candidates r types))"

definition stat_candidates :: "dial_path_ranker \<Rightarrow> string list \<Rightarrow> path list" where
  "stat_candidates r types = map fst (sorted_candidates r types)"

text \<open>Lines 124-126 (and 146-148): the set of paths over the entity types.\<close>

definition plain_candidates :: "dial_path_ranker \<Rightarrow> string list \<Rightarrow> path list" where
  "plain_candidates r types =
     fold (\<lambda>entity_type acc. set_union acc (map fst (lookup_paths r entity_type)))
       (types_order r types) []"

definition build_candidates :: "dial_path_ranker \<Rightarrow> string list \<Rightarrow> path list" where
  "build_candidates r types =
     (if use_path_stat r then stat_candidates r types else plain_candidates r types)"

text \<open>
  Lines 134-137: the loop over the subclasses. The update of the accumulator reads the
  name \<^verbatim>\<open>subclass_groups\<close>, which is bound nowhere (the local is
  \<^verbatim>\<open>subclass_group\<close>): reaching it raises \<^verbatim>\<open>NameError\<close>.
\<close>

fun merge_subclasses ::
  "dial_path_ranker \<Rightarrow> string list \<Rightarrow> string list \<Rightarrow> string list \<Rightarrow> error + string list" where
  "merge_subclasses r types add_entity_types [] = Inr add_entity_types"
| "merge_subclasses r types add_entity_types (subcls # rest) =
     (let subclass_group =
            remdups (case type_groups r subcls of None \<Rightarrow> [] | Some g \<Rightarrow> g)
      in if filter (\<lambda>t. t \<in> set subclass_group) types \<noteq> [] then Inl NameError
         else merge_subclasses r types add_entity_types rest)"

text \<open>
  Lines 128-148: the fallback. The accumulated types are not read again: the candidates
  are rebuilt from \<^verbatim>\<open>entity_types\<close>.
\<close>

definition fallback :: "dial_path_ranker \<Rightarrow> string list \<Rightarrow> error + path list" where
  "fallback r types =
     (let subclasses = concat (find_object (wiki_parser r)
            (map (\<lambda>entity_type. (entity_type, ''P279'', ''forw'')) (types_order r types)))
      in case merge_subclasses r types [] subclasses of
           Inl err \<Rightarrow> Inl err
         | Inr add_entity_types \<Rightarrow> Inr (build_candidates r types))"

text \<open>Lines 115-150: the candidate list handed to ranking and retrieval.\<close>

definition candidate_paths :: "dial_path_ranker \<Rightarrow> string list \<Rightarrow> error + path list" where
  "candidate_paths r types =
     (let direct = build_candidates r types
      in case (if direct = [] then fallback r types else Inr direct) of
           Inl err \<Rightarrow> Inl err
         | Inr cands \<Rightarrow> Inr (if use_path_stat r then cands else paths_order r cands))"

section \<open>Retrieval and confidence\<close>

text \<open>Lines 156-161.\<close>

definition top_paths :: "dial_path_ranker \<Rightarrow> string \<Rightarrow> path list \<Rightarrow> path list" where
  "top_paths r utterance cands =
     (if use_path_stat r then cands else map fst (rank_paths r utterance cands))"

text \<open>Lines 153-169: the retrieved paths and their relation sequences.\<close>

definition retrieve ::
  "dial_path_ranker \<Rightarrow> string \<Rightarrow> string \<Rightarrow> path list \<Rightarrow> error + (path list \<times> string list list)" where
  "retrieve r utterance entity cands =
     (if cands \<noteq> [] then
        unlayer (use_api_requester r)
          (retrieve_paths (wiki_parser r) entity (top_paths r utterance cands))
      else Inr ([], []))"

text \<open>\<^verbatim>\<open>self.rel_freq.get(rel, [0])[0]\<close>\<close>

definition first_freq :: "dial_path_ranker \<Rightarrow> string \<Rightarrow> error + real" where
  "first_freq r rel =
     (case rel_freq r rel of
        None \<Rightarrow> Inr 0
      | Some [] \<Rightarrow> Inl IndexError
      | Some (f # _) \<Rightarrow> Inr f)"

fun freqs :: "dial_path_ranker \<Rightarrow> string list \<Rightarrow> error + real list" where
  "freqs r [] = Inr []"
| "freqs r (rel # rels) =
     (case first_freq r rel of
        Inl err \<Rightarrow> Inl err
      | Inr f \<Rightarrow> (case freqs r rels of Inl err \<Rightarrow> Inl err | Inr fs \<Rightarrow> Inr (f # fs)))"

definition math_log :: "real \<Rightarrow> error + real" where
  "math_log x = (if x \<le> 0 then Inl ValueError else Inr (ln x))"

text \<open>Lines 174-176.\<close>

definition confidence :: "dial_path_ranker \<Rightarrow> string list \<Rightarrow> error + real" where
  "confidence r chosen_rels =
     (case freqs r chosen_rels of
        Inl err \<Rightarrow> Inl err
      | Inr fs \<Rightarrow>
          if length chosen_rels = 0 then Inl ZeroDivisionError
          else (case math_log (sum_list fs / real (length chosen_rels)) of
                  Inl err \<Rightarrow> Inl err
                | Inr l \<Rightarrow>
                    if max_log_freq r = 0 then Inl ZeroDivisionError
                    else Inr (min (l / max_log_freq r) 1 * (9 / 10))))"

section \<open>One batch item and the batch\<close>

text \<open>Lines 105-186: the body of the loop.\<close>

definition rank_item ::
  "dial_path_ranker \<Rightarrow> string \<Rightarrow> entity_item list \<Rightarrow> error + (path \<times> real)" where
  "rank_item r utterance entities_list =
     (case entities_list of
        [] \<Rightarrow> Inr ([], 4 / 10)
      | e # _ \<Rightarrow>
         (case seed_entity e of Inl err \<Rightarrow> Inl err | Inr entity \<Rightarrow>
         (case entity_types r entity of Inl err \<Rightarrow> Inl err | Inr types \<Rightarrow>
         (case candidate_paths r types of Inl err \<Rightarrow> Inl err | Inr cands \<Rightarrow>
         (case retrieve r utterance entity cands of Inl err \<Rightarrow> Inl err
          | Inr (retrieved_paths, retrieved_rels) \<Rightarrow>
             (case retrieved_paths of
                [] \<Rightarrow> Inr ([], 0)
              | chosen_path # _ \<Rightarrow>
                 (case retrieved_rels of
                    [] \<Rightarrow> Inl IndexError
                  | chosen_rels # _ \<Rightarrow>
                     (case confidence r chosen_rels of
                        Inl err \<Rightarrow> Inl err
                      | Inr conf \<Rightarrow> Inr (chosen_path, conf)))))))))"

text \<open>Lines 101-104 and 190: the loop over the zipped batches.\<close>

fun run_items ::
  "dial_path_ranker \<Rightarrow> (string \<times> entity_item list) list \<Rightarrow> error + (path list \<times> real list)" where
  "run_items r [] = Inr ([], [])"
| "run_items r ((utterance, entities_list) # rest) =
     (case rank_item r utterance entities_list of
        Inl err \<Rightarrow> Inl err
      | Inr (p, c) \<Rightarrow>
         (case run_items r rest of
            Inl err \<Rightarrow> Inl err
          | Inr (paths_batch, conf_batch) \<Rightarrow> Inr (p # paths_batch, c # conf_batch)))"

definition dial_path_ranker_call ::
  "dial_path_ranker \<Rightarrow> string list \<Rightarrow> entity_item list list \<Rightarrow> error + (path list \<times> real list)" where
  "dial_path_ranker_call r utterances_batch entities_batch =
     run_items r (zip utterances_batch entities_batch)"


section \<open>Reference notions used by the properties\<close>

text \<open>The (path, score) entries of the type-path table for a collection of types.\<close>

definition table_pairs :: "dial_path_ranker \<Rightarrow> string list \<Rightarrow> (path \<times> real) list" where
  "table_pairs r types = concat (map (lookup_paths r) types)"

text \<open>
  A path is among the paths with the highest precomputed score for the types: the table
  holds it with a score that no entry of these types exceeds.
\<close>

definition top_scored :: "dial_path_ranker \<Rightarrow> string list \<Rightarrow> path \<Rightarrow> bool" where
  "top_scored r types p \<longleftrightarrow>
     (\<exists>x \<in> set (table_pairs r types). fst x = p \<and>
        (\<forall>y \<in> set (table_pairs r types). snd y \<le> snd x))"

text \<open>The number of distinct scores a path carries in the table entries of the types.\<close>

definition score_count :: "dial_path_ranker \<Rightarrow> string list \<Rightarrow> path \<Rightarrow> nat" where
  "score_count r types p =
     length (remdups (map snd (filter (\<lambda>x. fst x = p) (table_pairs r types))))"

text \<open>
  The average over a relation sequence of the first element of each relation's
  frequency entry, a relation without entry counting 0.
\<close>

definition freq_or_zero :: "dial_path_ranker \<Rightarrow> string \<Rightarrow> real" where
  "freq_or_zero r rel =
     (case rel_freq r rel of None \<Rightarrow> 0 | Some [] \<Rightarrow> 0 | Some (f # _) \<Rightarrow> f)"

definition raw_freq :: "dial_path_ranker \<Rightarrow> string list \<Rightarrow> real" where
  "raw_freq r rels = sum_list (map (freq_or_zero r) rels) / real (length rels)"

section \<open>Example configurations\<close>

text \<open>
  A graph service that knows the entity \<open>Q1\<close> with the given types, answers every
  subclass query with the given list, and confirms exactly the given paths, in the order
  in which they are asked, each with itself as relation sequence.
\<close>

definition graph_service :: "string list \<Rightarrow> string list \<Rightarrow> path list \<Rightarrow> wiki_service" where
  "graph_service types subclasses confirmed =
     \<lparr> find_types = (\<lambda>entity. Plain (if entity = ''Q1'' then types else [])),
       find_object = (\<lambda>queries. map (\<lambda>q. subclasses) queries),
       retrieve_paths = (\<lambda>entity paths.
          Plain (filter (\<lambda>p. p \<in> set confirmed) paths,
                 filter (\<lambda>p. p \<in> set confirmed) paths)) \<rparr>"

definition example_ranker ::
  "(string \<times> (path \<times> real) list) list \<Rightarrow> (string \<times> string list) list \<Rightarrow>
   (string \<times> real list) list \<Rightarrow> wiki_service \<Rightarrow> bool \<Rightarrow> dial_path_ranker" where
  "example_ranker tp tg rf wp stat =
     \<lparr> type_paths = map_of tp, type_groups = map_of tg, rel_freq = map_of rf,
       wiki_parser = wp,
       rank_paths = (\<lambda>utterance paths. map (\<lambda>p. (p, 1)) paths),
       max_log_freq = default_max_log_freq,
       use_api_requester = False, use_path_stat = stat,
       types_order = (\<lambda>xs. xs), scored_order = (\<lambda>xs. xs), paths_order = (\<lambda>xs. xs) \<rparr>"

text \<open>The example of the specification: one type, two scored paths, statistic mode.\<close>

definition spec_example :: dial_path_ranker where
  "spec_example = example_ranker
     [(''TypeA'', [([''P31''], 9 / 10), ([''P21''], 5 / 10)])] []
     [(''P31'', [100])] (graph_service [''TypeA''] [] [[''P31'']]) True"

text \<open>The same tables in ranking mode.\<close>

definition ranking_example :: dial_path_ranker where
  "ranking_example = example_ranker
     [(''TypeA'', [([''P31''], 9 / 10), ([''P21''], 5 / 10)])] []
     [(''P31'', [100])] (graph_service [''TypeA''] [] [[''P31'']]) False"

text \<open>The graph confirms only the path with the lower score.\<close>

definition second_path_example :: dial_path_ranker where
  "second_path_example = example_ranker
     [(''TypeA'', [([''P31''], 9 / 10), ([''P21''], 5 / 10)])] []
     [(''P21'', [100])] (graph_service [''TypeA''] [] [[''P21'']]) True"

text \<open>
  No direct candidates; the type has a superclass whose group holds the type itself and a
  further type that has a path.
\<close>

definition subclass_example :: dial_path_ranker where
  "subclass_example = example_ranker
     [(''TypeB'', [([''P31''], 9 / 10)])] [(''Super'', [''TypeA'', ''TypeB''])]
     [(''P31'', [100])] (graph_service [''TypeA''] [''Super''] [[''P31'']]) False"

text \<open>
  An empty type-path table: no collection of types has a candidate. The type of the entity
  has a superclass whose group holds the type itself and a further type.
\<close>

definition empty_table_example :: dial_path_ranker where
  "empty_table_example = example_ranker
     [] [(''Super'', [''TypeA'', ''TypeB''])]
     [(''P31'', [100])] (graph_service [''TypeA''] [''Super''] [[''P31'']]) False"

text \<open>A two-hop path of which one relation has frequency 1 and the other no entry.\<close>

definition half_freq_example :: dial_path_ranker where
  "half_freq_example = example_ranker
     [(''TypeA'', [([''P31'', ''P21''], 9 / 10)])] []
     [(''P31'', [1])] (graph_service [''TypeA''] [] [[''P31'', ''P21'']]) True"

text \<open>The confirmed path has a single relation, without frequency entry.\<close>

definition no_freq_example :: dial_path_ranker where
  "no_freq_example = example_ranker
     [(''TypeA'', [([''P31''], 9 / 10)])] []
     [] (graph_service [''TypeA''] [] [[''P31'']]) True"

text \<open>Two types of the entity list the same path, with different scores.\<close>

definition two_types_example :: dial_path_ranker where
  "two_types_example = example_ranker
     [(''TypeA'', [([''P31''], 9 / 10)]), (''TypeB'', [([''P31''], 5 / 10)])] []
     [(''P31'', [100])] (graph_service [''TypeA'', ''TypeB''] [] [[''P31'']]) True"

section \<open>Evaluation of the examples\<close>

lemmas ranker_defs =
  example_ranker_def graph_service_def rank_item_def seed_entity_def entity_types_def
  unlayer_def candidate_paths_def build_candidates_def stat_candidates_def
  sorted_candidates_def scored_candidates_def plain_candidates_def set_union_def
  lookup_paths_def fallback_def retrieve_def top_paths_def confidence_def first_freq_def
  math_log_def default_max_log_freq_def dial_path_ranker_call_def

lemma spec_example_item:
  "rank_item spec_example u [Entity ''Q1''] = Inr ([''P31''], min (ln 100 / 8) 1 * (9 / 10))"
  by (simp add: spec_example_def ranker_defs)

lemma ranking_example_item:
  "rank_item ranking_example u [Entity ''Q1''] = Inr ([''P31''], min (ln 100 / 8) 1 * (9 / 10))"
  by (simp add: ranking_example_def ranker_defs)

lemma example_order_ok: "set_order_ok (example_ranker tp tg rf wp stat)"
  by (simp add: set_order_ok_def example_ranker_def)

section \<open>The batch loop\<close>

lemma run_items_length:
  "run_items r xs = Inr (ps, cs) \<Longrightarrow> length ps = length xs \<and> length cs = length xs"
proof (induction xs arbitrary: ps cs)
  case Nil
  then show ?case by simp
next
  case (Cons x xs)
  obtain u es where x: "x = (u, es)" by (cases x)
  from Cons.prems x obtain p c ps' cs' where
    "run_items r xs = Inr (ps', cs')" "ps = p # ps'" "cs = c # cs'"
    by (auto split: sum.splits prod.splits)
  with Cons.IH show ?case by simp
qed

lemma run_items_nth:
  "run_items r xs = Inr (ps, cs) \<Longrightarrow> i < length xs \<Longrightarrow>
     rank_item r (fst (xs ! i)) (snd (xs ! i)) = Inr (ps ! i, cs ! i)"
proof (induction xs arbitrary: ps cs i)
  case Nil
  then show ?case by simp
next
  case (Cons x xs)
  obtain u es where x: "x = (u, es)" by (cases x)
  from Cons.prems(1) x obtain p c ps' cs' where
    item: "rank_item r u es = Inr (p, c)" and
    rest: "run_items r xs = Inr (ps', cs')" and
    out: "ps = p # ps'" "cs = c # cs'"
    by (auto split: sum.splits prod.splits)
  show ?case
  proof (cases i)
    case 0
    with item out x show ?thesis by simp
  next
    case (Suc j)
    with Cons.prems(2) have "j < length xs" by simp
    from Cons.IH [OF rest this] Suc out show ?thesis by simp
  qed
qed

lemma run_items_total:
  "(\<forall>x \<in> set xs. \<exists>y. rank_item r (fst x) (snd x) = Inr y) \<Longrightarrow>
     \<exists>ps cs. run_items r xs = Inr (ps, cs)"
proof (induction xs)
  case Nil
  then show ?case by simp
next
  case (Cons x xs)
  obtain u es where x: "x = (u, es)" by (cases x)
  from Cons.prems x obtain p c where item: "rank_item r u es = Inr (p, c)"
    by fastforce
  from Cons obtain ps cs where "run_items r xs = Inr (ps, cs)"
    by auto
  with item x show ?case by simp
qed

lemma call_nth:
  assumes "dial_path_ranker_call r us es = Inr (ps, cs)"
    and "i < min (length us) (length es)"
  shows "rank_item r (us ! i) (es ! i) = Inr (ps ! i, cs ! i)"
  using run_items_nth [of r "zip us es" ps cs i] assms
  by (simp add: dial_path_ranker_call_def)

section \<open>The body of the loop, by cases\<close>

lemma rank_item_no_path:
  assumes "seed_entity e = Inr entity"
    and "entity_types r entity = Inr types"
    and "candidate_paths r types = Inr cands"
    and "retrieve r u entity cands = Inr ([], rels)"
  shows "rank_item r u (e # rest) = Inr ([], 0)"
  using assms by (simp add: rank_item_def)

lemma rank_item_chosen:
  assumes "seed_entity e = Inr entity"
    and "entity_types r entity = Inr types"
    and "candidate_paths r types = Inr cands"
    and "retrieve r u entity cands = Inr (chosen_path # paths, chosen_rels # rels)"
  shows "rank_item r u (e # rest) =
           (case confidence r chosen_rels of
              Inl err \<Rightarrow> Inl err
            | Inr conf \<Rightarrow> Inr (chosen_path, conf))"
  using assms by (simp add: rank_item_def)

lemma rank_item_nonempty_path:
  assumes "rank_item r u es = Inr (p, c)" and "p \<noteq> []"
  shows "\<exists>e rest entity types cands paths rels.
           es = e # rest \<and> seed_entity e = Inr entity \<and>
           entity_types r entity = Inr types \<and>
           candidate_paths r types = Inr cands \<and> cands \<noteq> [] \<and>
           unlayer (use_api_requester r)
             (retrieve_paths (wiki_parser r) entity (top_paths r u cands)) = Inr (paths, rels) \<and>
           paths \<noteq> [] \<and> p = hd paths"
proof (cases es)
  case Nil
  with assms show ?thesis by (simp add: rank_item_def)
next
  case (Cons e rest)
  from assms(1) Cons obtain entity where 1: "seed_entity e = Inr entity"
    by (auto simp: rank_item_def split: sum.splits)
  from assms(1) Cons 1 obtain types where 2: "entity_types r entity = Inr types"
    by (auto simp: rank_item_def split: sum.splits)
  from assms(1) Cons 1 2 obtain cands where 3: "candidate_paths r types = Inr cands"
    by (auto simp: rank_item_def split: sum.splits)
  from assms(1) Cons 1 2 3 obtain paths rels where
    4: "retrieve r u entity cands = Inr (paths, rels)"
    by (auto simp: rank_item_def split: sum.splits)
  from assms Cons 1 2 3 4 have 5: "paths \<noteq> []" "p = hd paths"
    by (auto simp: rank_item_def split: sum.splits list.splits)
  from 4 5 have 6: "cands \<noteq> []"
    by (auto simp: retrieve_def split: if_splits)
  with 4 have "unlayer (use_api_requester r)
      (retrieve_paths (wiki_parser r) entity (top_paths r u cands)) = Inr (paths, rels)"
    by (simp add: retrieve_def)
  with Cons 1 2 3 5 6 show ?thesis by blast
qed

section \<open>The confidence of a relation sequence\<close>

lemma freqs_values: "freqs r rels = Inr fs \<Longrightarrow> fs = map (freq_or_zero r) rels"
proof (induction rels arbitrary: fs)
  case Nil
  then show ?case by simp
next
  case (Cons rel rels)
  from Cons.prems obtain f fs' where
    f: "first_freq r rel = Inr f" and fs': "freqs r rels = Inr fs'" and fs: "fs = f # fs'"
    by (auto split: sum.splits)
  from f have "f = freq_or_zero r rel"
    by (auto simp: first_freq_def freq_or_zero_def split: option.splits list.splits)
  with Cons.IH [OF fs'] fs show ?case by simp
qed

lemma freqs_defined:
  "(\<forall>rel \<in> set rels. rel_freq r rel \<noteq> Some []) \<Longrightarrow>
     freqs r rels = Inr (map (freq_or_zero r) rels)"
proof (induction rels)
  case Nil
  then show ?case by simp
next
  case (Cons rel rels)
  then have "first_freq r rel = Inr (freq_or_zero r rel)"
    by (auto simp: first_freq_def freq_or_zero_def split: option.splits list.splits)
  with Cons show ?case by simp
qed

lemma confidence_value:
  assumes "confidence r rels = Inr c"
  shows "rels \<noteq> [] \<and> 0 < raw_freq r rels \<and> max_log_freq r \<noteq> 0 \<and>
         c = min (ln (raw_freq r rels) / max_log_freq r) 1 * (9 / 10)"
proof -
  from assms obtain fs where fs: "freqs r rels = Inr fs"
    by (auto simp: confidence_def split: sum.splits)
  have "fs = map (freq_or_zero r) rels"
    using fs by (rule freqs_values)
  then have "sum_list fs / real (length rels) = raw_freq r rels"
    by (simp only: raw_freq_def)
  with assms fs show ?thesis
    by (auto simp: confidence_def math_log_def split: if_splits)
qed

lemma confidence_defined:
  assumes "rels \<noteq> []"
    and "\<forall>rel \<in> set rels. rel_freq r rel \<noteq> Some []"
    and "0 < raw_freq r rels"
    and "max_log_freq r \<noteq> 0"
  shows "confidence r rels = Inr (min (ln (raw_freq r rels) / max_log_freq r) 1 * (9 / 10))"
proof -
  have "sum_list (map (freq_or_zero r) rels) / real (length rels) = raw_freq r rels"
    by (simp add: raw_freq_def)
  with assms show ?thesis
    by (simp add: confidence_def math_log_def freqs_defined)
qed

section \<open>Bounds on the logarithm of the example\<close>

lemma exp_partial_sum_le:
  fixes x :: real
  assumes "0 \<le> x"
  shows "(\<Sum>m<n. x ^ m / fact m) \<le> exp x"
proof -
  obtain t where t: "exp x = (\<Sum>m<n. x ^ m / fact m) + (exp t / fact n) * x ^ n"
    using Maclaurin_exp_le [of x n] by blast
  have "0 \<le> (exp t / fact n) * x ^ n"
    using assms by simp
  with t show ?thesis by linarith
qed

lemma exp_le_partial_sum:
  fixes x :: real
  assumes "0 \<le> x" and "x ^ n < fact n"
  shows "exp x \<le> (\<Sum>m<n. x ^ m / fact m) / (1 - x ^ n / fact n)"
proof -
  obtain t where tx: "\<bar>t\<bar> \<le> \<bar>x\<bar>"
    and t: "exp x = (\<Sum>m<n. x ^ m / fact m) + (exp t / fact n) * x ^ n"
    using Maclaurin_exp_le [of x n] by blast
  have "t \<le> x" using tx assms(1) by linarith
  then have "exp t \<le> exp x" by simp
  moreover have "0 \<le> x ^ n / fact n" using assms(1) by simp
  ultimately have "exp t * (x ^ n / fact n) \<le> exp x * (x ^ n / fact n)"
    by (rule mult_right_mono)
  then have "exp t / fact n * x ^ n \<le> exp x * (x ^ n / fact n)"
    by simp
  with t have "exp x \<le> (\<Sum>m<n. x ^ m / fact m) + exp x * (x ^ n / fact n)"
    by linarith
  then have "exp x * (1 - x ^ n / fact n) \<le> (\<Sum>m<n. x ^ m / fact m)"
    by (simp add: right_diff_distrib)
  moreover have "0 < 1 - x ^ n / fact n"
    using assms(2) by simp
  ultimately show ?thesis
    by (simp add: pos_le_divide_eq)
qed

lemma ln_10_lower: "23 / 10 < ln (10::real)"
proof -
  have "exp (23 / 10 :: real) \<le>
      (\<Sum>m<12. (23 / 10) ^ m / fact m) / (1 - (23 / 10) ^ 12 / fact 12)"
    by (rule exp_le_partial_sum) (simp_all add: fact_numeral power_divide)
  also have "\<dots> < 10"
    by (simp add: eval_nat_numeral)
  finally have "exp (23 / 10 :: real) < exp (ln 10)" by simp
  then show ?thesis by (simp only: exp_less_cancel_iff)
qed

lemma ln_10_upper: "ln (10::real) < 2304 / 1000"
proof -
  have "(10::real) < (\<Sum>m<10. (2304 / 1000) ^ m / fact m)"
    by (simp add: eval_nat_numeral)
  also have "\<dots> \<le> exp (2304 / 1000)"
    by (rule exp_partial_sum_le) simp
  finally have "exp (ln 10) < exp (2304 / 1000 :: real)" by simp
  then show ?thesis by (simp only: exp_less_cancel_iff)
qed

lemma ln_100: "ln (100::real) = 2 * ln 10"
proof -
  have "ln ((10::real) ^ 2) = real 2 * ln 10" by (rule ln_realpow)
  then show ?thesis by simp
qed

lemma example_confidence: "min (ln 100 / 8) 1 * (9 / 10) = ln (10::real) * (9 / 40)"
  using ln_10_upper by (simp add: ln_100 min_def)

lemma example_confidence_approx: "\<bar>min (ln 100 / 8) 1 * (9 / 10) - 518 / 1000\<bar> < (1 / 2000 :: real)"
proof -
  have "\<bar>ln (10::real) * (9 / 40) - 518 / 1000\<bar> < 1 / 2000"
    using ln_10_lower ln_10_upper by linarith
  then show ?thesis by (simp only: example_confidence)
qed

lemma spec_example_retrieval:
  "seed_entity (Entity ''Q1'') = Inr ''Q1''"
  "entity_types spec_example ''Q1'' = Inr [''TypeA'']"
  "candidate_paths spec_example [''TypeA''] = Inr [[''P31''], [''P21'']]"
  "retrieve spec_example ''hi'' ''Q1'' [[''P31''], [''P21'']] = Inr ([''P31''] # [], [''P31''] # [])"
  by (simp_all add: spec_example_def ranker_defs)

lemma spec_example_raw_freq: "raw_freq spec_example [''P31''] = 100"
  by (simp add: raw_freq_def freq_or_zero_def spec_example_def example_ranker_def)

section \<open>The candidate list\<close>

lemma fold_set_union_set:
  "set (fold (\<lambda>t acc. set_union acc (f t)) ts a) = set a \<union> (\<Union>t \<in> set ts. set (f t))"
  by (induction ts arbitrary: a) (auto simp: set_union_def)

lemma fold_set_union_distinct:
  "distinct a \<Longrightarrow> distinct (fold (\<lambda>t acc. set_union acc (f t)) ts a)"
  by (induction ts arbitrary: a) (simp_all add: set_union_def)

lemma types_order_set: "set_order_ok r \<Longrightarrow> set (types_order r types) = set types"
  unfolding set_order_ok_def by (blast dest: mset_eq_setD)

lemma scored_order_set: "set_order_ok r \<Longrightarrow> set (scored_order r xs) = set xs"
  unfolding set_order_ok_def by (blast dest: mset_eq_setD)

lemma scored_order_distinct: "set_order_ok r \<Longrightarrow> distinct (scored_order r xs) = distinct xs"
  unfolding set_order_ok_def by (blast dest: mset_eq_imp_distinct_iff)

lemma paths_order_set: "set_order_ok r \<Longrightarrow> set (paths_order r xs) = set xs"
  unfolding set_order_ok_def by (blast dest: mset_eq_setD)

lemma paths_order_distinct: "set_order_ok r \<Longrightarrow> distinct (paths_order r xs) = distinct xs"
  unfolding set_order_ok_def by (blast dest: mset_eq_imp_distinct_iff)

lemma table_pairs_set: "set (table_pairs r types) = (\<Union>t \<in> set types. set (lookup_paths r t))"
  by (simp add: table_pairs_def)

lemma scored_candidates_set:
  "set_order_ok r \<Longrightarrow> set (scored_candidates r types) = set (table_pairs r types)"
  by (simp add: scored_candidates_def fold_set_union_set types_order_set table_pairs_set)

lemma scored_candidates_distinct: "distinct (scored_candidates r types)"
  by (simp add: scored_candidates_def fold_set_union_distinct)

lemma sorted_candidates_set:
  "set_order_ok r \<Longrightarrow> set (sorted_candidates r types) = set (table_pairs r types)"
  by (simp add: sorted_candidates_def scored_order_set scored_candidates_set)

lemma sorted_candidates_distinct: "set_order_ok r \<Longrightarrow> distinct (sorted_candidates r types)"
  by (simp add: sorted_candidates_def scored_order_distinct scored_candidates_distinct)

lemma sorted_candidates_descending:
  "sorted_wrt (\<lambda>x y. snd y \<le> snd x) (sorted_candidates r types)"
proof -
  have "sorted (map (\<lambda>x. - snd x) (sorted_candidates r types))"
    unfolding sorted_candidates_def by (rule sorted_sort_key)
  then show ?thesis by (simp add: sorted_wrt_map)
qed

lemma plain_candidates_set:
  "set_order_ok r \<Longrightarrow> set (plain_candidates r types) = fst ` set (table_pairs r types)"
  by (auto simp: plain_candidates_def fold_set_union_set types_order_set table_pairs_set)

lemma plain_candidates_distinct: "distinct (plain_candidates r types)"
  by (simp add: plain_candidates_def fold_set_union_distinct)

text \<open>The fallback, when it returns, returns the candidates of the unchanged types.\<close>

lemma fallback_value: "fallback r types = Inr cands \<Longrightarrow> cands = build_candidates r types"
  by (auto simp: fallback_def Let_def split: sum.splits)

lemma candidate_paths_value:
  assumes "candidate_paths r types = Inr cands"
  shows "cands = (if use_path_stat r then stat_candidates r types
                  else paths_order r (plain_candidates r types))"
proof (cases "build_candidates r types = []")
  case True
  with assms obtain cs where cs: "fallback r types = Inr cs"
    and cands: "cands = (if use_path_stat r then cs else paths_order r cs)"
    by (auto simp: candidate_paths_def Let_def split: sum.splits)
  from fallback_value [OF cs] cands show ?thesis
    by (simp add: build_candidates_def)
next
  case False
  with assms show ?thesis
    by (auto simp: candidate_paths_def Let_def build_candidates_def)
qed

lemma count_list_map_fst:
  "count_list (map fst xs) p = length (filter (\<lambda>x. fst x = p) xs)"
  by (induction xs) auto

lemma count_list_paths:
  assumes "distinct xs" and "set xs = set ys"
  shows "count_list (map fst xs) p =
         length (remdups (map snd (filter (\<lambda>x. fst x = p) ys)))"
proof -
  have inj: "inj_on snd {x \<in> set ys. fst x = p}"
    by (auto simp: inj_on_def prod_eq_iff)
  have "count_list (map fst xs) p = card ({x. fst x = p} \<inter> set xs)"
    using assms(1) by (simp add: count_list_map_fst distinct_length_filter)
  also have "{x. fst x = p} \<inter> set xs = {x \<in> set ys. fst x = p}"
    using assms(2) by auto
  also have "card {x \<in> set ys. fst x = p} = card (snd ` {x \<in> set ys. fst x = p})"
    using inj by (simp add: card_image)
  also have "snd ` {x \<in> set ys. fst x = p} = set (map snd (filter (\<lambda>x. fst x = p) ys))"
    by auto
  finally show ?thesis by (simp add: length_remdups_card_conv)
qed

lemma sorted_wrt_hd:
  "sorted_wrt P xs \<Longrightarrow> xs \<noteq> [] \<Longrightarrow> y \<in> set xs \<Longrightarrow> y = hd xs \<or> P (hd xs) y"
  by (cases xs) auto

section \<open>Properties\<close>

text \<open>
  C5. An item whose entity list is empty yields the empty path with confidence 0.4:
  the body of the loop returns this pair for every utterance, and in every batch that
  the call returns, the outputs at the position of such an item are the empty path
  and 0.4.
\<close>

theorem empty_entity_list_prior:
  "rank_item r u [] = Inr ([], 4 / 10) \<and>
   (dial_path_ranker_call r us es = Inr (ps, cs) \<longrightarrow>
    i < min (length us) (length es) \<longrightarrow> es ! i = [] \<longrightarrow>
    ps ! i = [] \<and> cs ! i = 4 / 10)"
proof -
  have item: "rank_item r v [] = Inr ([], 4 / 10)" for v
    by (simp add: rank_item_def)
  show ?thesis
    using item call_nth [of r us es ps cs i] by auto
qed

theorem empty_entity_list_prior_witness:
  "dial_path_ranker_call spec_example [''a'', ''b''] [[Entity ''Q1''], []] =
     Inr ([[''P31''], []], [min (ln 100 / 8) 1 * (9 / 10), 4 / 10]) \<and>
   (1::nat) < min (length [''a'', ''b'']) (length [[Entity ''Q1''], []]) \<and>
   [[Entity ''Q1''], []] ! 1 = [] \<and>
   [[''P31''], []] ! 1 = [] \<and>
   [min (ln 100 / 8) 1 * (9 / 10), 4 / 10 :: real] ! 1 = 4 / 10"
proof -
  have run: "dial_path_ranker_call spec_example [''a'', ''b''] [[Entity ''Q1''], []] =
     Inr ([[''P31''], []], [min (ln 100 / 8) 1 * (9 / 10), 4 / 10])"
    by (simp add: dial_path_ranker_call_def spec_example_item) (simp add: rank_item_def)
  show ?thesis
    using run empty_entity_list_prior [of spec_example "''b''" "[''a'', ''b'']"
        "[[Entity ''Q1''], []]" "[[''P31''], []]" "[min (ln 100 / 8) 1 * (9 / 10), 4 / 10]" 1]
    by simp
qed

text \<open>
  C10. Batches of different lengths raise no error of their own: when the body of the
  loop returns for each of the first \<open>min (length us) (length es)\<close> positions, the call
  returns two lists of exactly that length, whose entries are the results of the body at
  the same positions.
\<close>

theorem call_processes_common_prefix:
  assumes "\<forall>i < min (length us) (length es). \<exists>y. rank_item r (us ! i) (es ! i) = Inr y"
  shows "\<exists>ps cs. dial_path_ranker_call r us es = Inr (ps, cs) \<and>
           length ps = min (length us) (length es) \<and>
           length cs = min (length us) (length es) \<and>
           (\<forall>i < min (length us) (length es).
              rank_item r (us ! i) (es ! i) = Inr (ps ! i, cs ! i))"
proof -
  have "\<forall>x \<in> set (zip us es). \<exists>y. rank_item r (fst x) (snd x) = Inr y"
  proof
    fix x assume "x \<in> set (zip us es)"
    then obtain i where "i < length (zip us es)" "x = zip us es ! i"
      by (auto simp: in_set_conv_nth)
    with assms show "\<exists>y. rank_item r (fst x) (snd x) = Inr y" by simp
  qed
  then obtain ps cs where run: "run_items r (zip us es) = Inr (ps, cs)"
    using run_items_total by blast
  then have call: "dial_path_ranker_call r us es = Inr (ps, cs)"
    by (simp add: dial_path_ranker_call_def)
  from run_items_length [OF run] call_nth [OF call] call show ?thesis
    by auto
qed

theorem call_processes_common_prefix_witness:
  "\<exists>ps cs. dial_path_ranker_call spec_example [''a'', ''b'', ''c''] [[], [Entity ''Q1'']] = Inr (ps, cs) \<and>
      length ps = 2 \<and> length cs = 2 \<and>
      rank_item spec_example ''a'' [] = Inr (ps ! 0, cs ! 0) \<and>
      rank_item spec_example ''b'' [Entity ''Q1''] = Inr (ps ! 1, cs ! 1)"
proof -
  have h: "\<forall>i < min (length [''a'', ''b'', ''c'']) (length [[], [Entity ''Q1'']]).
      \<exists>y. rank_item spec_example ([''a'', ''b'', ''c''] ! i) ([[], [Entity ''Q1'']] ! i) = Inr y"
  proof (intro allI impI)
    fix i :: nat
    assume "i < min (length [''a'', ''b'', ''c'']) (length [[], [Entity ''Q1'']])"
    then have i: "i = 0 \<or> i = 1" by auto
    from i
    show "\<exists>y. rank_item spec_example ([''a'', ''b'', ''c''] ! i) ([[], [Entity ''Q1'']] ! i) = Inr y"
    proof
      assume i0: "i = 0"
      have "rank_item spec_example ([''a'', ''b'', ''c''] ! 0) ([[], [Entity ''Q1'']] ! 0) =
              Inr ([], 4 / 10)"
        by (simp add: rank_item_def)
      with i0 show ?thesis by blast
    next
      assume i1: "i = 1"
      have "rank_item spec_example ([''a'', ''b'', ''c''] ! 1) ([[], [Entity ''Q1'']] ! 1) =
              Inr ([''P31''], min (ln 100 / 8) 1 * (9 / 10))"
        by (simp add: spec_example_item)
      with i1 show ?thesis by blast
    qed
  qed
  from call_processes_common_prefix [OF h] show ?thesis
    by fastforce
qed


text \<open>
  C6 (the code departs from the claim). The entity list is non-empty and the type-path
  table is empty, so that neither the type \<open>TypeA\<close> of the entity nor the types extended
  by the group of its superclass have a candidate: the candidate set is empty before and
  after any fallback, and the claim asks for the empty path with confidence 0.0. The group
  intersects the types of the entity, and the call fails with \<open>NameError\<close> instead of
  returning.
\<close>

theorem no_candidates_raises_name_error:
  "dial_path_ranker_call empty_table_example [''hi''] [[Entity ''Q1'']] = Inl NameError \<and>
   build_candidates empty_table_example [''TypeA''] = [] \<and>
   build_candidates empty_table_example [''TypeA'', ''TypeB''] = []"
  by (simp add: empty_table_example_def ranker_defs)

text \<open>
  C9. A non-empty path in the output batch is the first element of the list of retrieved
  paths that the graph service returned to the \<open>retrieve_paths\<close> query for the seed
  entity of that item and its top paths.
\<close>

theorem output_path_is_first_retrieved:
  assumes "dial_path_ranker_call r us es = Inr (ps, cs)"
    and "i < min (length us) (length es)"
    and "ps ! i \<noteq> []"
  shows "\<exists>e rest entity types cands paths rels.
           es ! i = e # rest \<and> seed_entity e = Inr entity \<and>
           entity_types r entity = Inr types \<and>
           candidate_paths r types = Inr cands \<and> cands \<noteq> [] \<and>
           unlayer (use_api_requester r)
             (retrieve_paths (wiki_parser r) entity (top_paths r (us ! i) cands)) =
               Inr (paths, rels) \<and>
           paths \<noteq> [] \<and> ps ! i = hd paths"
  using call_nth [OF assms(1,2)] assms(3) by (rule rank_item_nonempty_path)

theorem output_path_is_first_retrieved_witness:
  "\<exists>e rest entity types cands paths rels.
     [[Entity ''Q1'']] ! 0 = e # rest \<and> seed_entity e = Inr entity \<and>
     entity_types ranking_example entity = Inr types \<and>
     candidate_paths ranking_example types = Inr cands \<and> cands \<noteq> [] \<and>
     unlayer (use_api_requester ranking_example)
       (retrieve_paths (wiki_parser ranking_example) entity
          (top_paths ranking_example ([''hi''] ! 0) cands)) = Inr (paths, rels) \<and>
     paths \<noteq> [] \<and> [[''P31'']] ! 0 = hd paths"
proof -
  have run: "dial_path_ranker_call ranking_example [''hi''] [[Entity ''Q1'']] =
      Inr ([[''P31'']], [min (ln 100 / 8) 1 * (9 / 10)])"
    by (simp add: dial_path_ranker_call_def ranking_example_item)
  have i: "(0::nat) < min (length [''hi'']) (length [[Entity ''Q1'']])"
    by simp
  have p: "[[''P31'']] ! 0 \<noteq> ([] :: path)"
    by simp
  from output_path_is_first_retrieved [OF run i p] show ?thesis .
qed

text \<open>
  C2 (the code departs from the claim). The entity has the type \<open>TypeA\<close>, for which the
  type-path table has no entry; the subclass query returns \<open>Super\<close>, whose group holds
  \<open>TypeA\<close> and \<open>TypeB\<close>; the table has the path \<open>P31\<close> for \<open>TypeB\<close>. The group intersects
  the types of the entity, and the item fails with \<open>NameError\<close>, whereas candidates built
  for the types extended by the group would hold the path.
\<close>

theorem fallback_raises_name_error:
  "rank_item subclass_example ''hi'' [Entity ''Q1''] = Inl NameError \<and>
   build_candidates subclass_example [''TypeA'', ''TypeB''] = [[''P31'']]"
  by (simp add: subclass_example_def ranker_defs)

text \<open>
  C3 (the code departs from the claim). The path confirmed by the graph has the single
  relation \<open>P31\<close>, which has no entry in the frequency table: the average frequency is 0
  and the item fails with the \<open>ValueError\<close> of the logarithm.
\<close>

theorem zero_frequency_raises_value_error:
  "rank_item no_freq_example ''hi'' [Entity ''Q1''] = Inl ValueError"
  by (simp add: no_freq_example_def ranker_defs)


text \<open>
  C1 (as the claim states it, refuted). The graph confirms a path of two relations, one
  with frequency 1 and one without entry: the average frequency is 1/2, its logarithm is
  negative, and so is the confidence that the item returns.
\<close>

theorem confidence_below_zero_counterexample:
  "rank_item half_freq_example ''hi'' [Entity ''Q1''] =
     Inr ([''P31'', ''P21''], ln (1 / 2) / 8 * (9 / 10)) \<and>
   ln (1 / 2) / 8 * (9 / 10) < (0::real)"
proof -
  have neg: "ln (1 / 2 :: real) < 0"
    by (rule ln_less_zero) simp_all
  then have "ln (1 / 2 :: real) / 8 \<le> 1"
    by linarith
  then have "min (ln (1 / 2 :: real) / 8) 1 = ln (1 / 2) / 8"
    by (rule min_absorb1)
  moreover have "rank_item half_freq_example ''hi'' [Entity ''Q1''] =
     Inr ([''P31'', ''P21''], min (ln (1 / 2) / 8) 1 * (9 / 10))"
    by (simp add: half_freq_example_def ranker_defs)
  ultimately show ?thesis using neg by simp
qed

text \<open>
  C1 (amended). For an item in which a concrete path is retrieved and a confidence is
  returned, the confidence is at most 0.9, hence at most 1.0; with a positive
  \<open>max_log_freq\<close> it is non-negative exactly when the average frequency of the chosen
  relations is at least 1.
\<close>

theorem confidence_range:
  assumes "seed_entity e = Inr entity"
    and "entity_types r entity = Inr types"
    and "candidate_paths r types = Inr cands"
    and "retrieve r u entity cands = Inr (chosen_path # paths, chosen_rels # rels)"
    and "rank_item r u (e # rest) = Inr (p, c)"
  shows "c \<le> 9 / 10 \<and> c \<le> 1 \<and>
         (0 < max_log_freq r \<longrightarrow> (0 \<le> c \<longleftrightarrow> 1 \<le> raw_freq r chosen_rels))"
proof -
  from rank_item_chosen [OF assms(1-4), of rest] assms(5)
  have "confidence r chosen_rels = Inr c"
    by (auto split: sum.splits)
  from confidence_value [OF this]
  have raw: "0 < raw_freq r chosen_rels"
    and c: "c = min (ln (raw_freq r chosen_rels) / max_log_freq r) 1 * (9 / 10)"
    by simp_all
  have "min (ln (raw_freq r chosen_rels) / max_log_freq r) 1 \<le> 1"
    by simp
  with c have upper: "c \<le> 9 / 10" by simp
  have "0 \<le> c \<longleftrightarrow> 1 \<le> raw_freq r chosen_rels" if m: "0 < max_log_freq r"
  proof -
    have "0 \<le> c \<longleftrightarrow> 0 \<le> min (ln (raw_freq r chosen_rels) / max_log_freq r) 1"
      unfolding c by (simp only: zero_le_mult_iff) simp
    also have "\<dots> \<longleftrightarrow> 0 \<le> ln (raw_freq r chosen_rels) / max_log_freq r"
      by simp
    also have "\<dots> \<longleftrightarrow> 0 \<le> ln (raw_freq r chosen_rels)"
      using m by (simp add: zero_le_divide_iff)
    also have "\<dots> \<longleftrightarrow> 1 \<le> raw_freq r chosen_rels"
      using raw by simp
    finally show ?thesis .
  qed
  with upper show ?thesis by simp
qed

theorem confidence_range_witness:
  "rank_item spec_example ''hi'' [Entity ''Q1''] =
     Inr ([''P31''], min (ln 100 / 8) 1 * (9 / 10)) \<and>
   min (ln 100 / 8) 1 * (9 / 10) \<le> (1 :: real) \<and>
   (0 :: real) < max_log_freq spec_example \<and>
   (1 :: real) \<le> raw_freq spec_example [''P31''] \<and>
   (0 :: real) \<le> min (ln 100 / 8) 1 * (9 / 10)"
proof -
  have m: "(0 :: real) < max_log_freq spec_example"
    by (simp add: spec_example_def example_ranker_def default_max_log_freq_def)
  from confidence_range [OF spec_example_retrieval spec_example_item] m
  show ?thesis
    by (simp add: spec_example_item spec_example_raw_freq)
qed

text \<open>
  C4. When a concrete path is retrieved, the item returns it with the confidence
  \<open>min (ln raw / max_log_freq) 1 * 0.9\<close>, where \<open>raw\<close> is the average over the chosen
  relations of the first element of the frequency entry, 0 for a relation without entry
  (provided the sequence is non-empty, no entry is an empty list, \<open>raw\<close> is positive and
  \<open>max_log_freq\<close> is not 0). For the single relation \<open>P31\<close> with entry \<open>[100]\<close> and the
  default \<open>max_log_freq = 8\<close> the confidence is \<open>min (ln 100 / 8) 1 * 0.9\<close>, which is
  0.518 to three decimal places.
\<close>

theorem confidence_formula:
  assumes "seed_entity e = Inr entity"
    and "entity_types r entity = Inr types"
    and "candidate_paths r types = Inr cands"
    and "retrieve r u entity cands = Inr (chosen_path # paths, chosen_rels # rels)"
  shows "(chosen_rels \<noteq> [] \<and> (\<forall>rel \<in> set chosen_rels. rel_freq r rel \<noteq> Some []) \<and>
          0 < raw_freq r chosen_rels \<and> max_log_freq r \<noteq> 0 \<longrightarrow>
          rank_item r u (e # rest) =
            Inr (chosen_path, min (ln (raw_freq r chosen_rels) / max_log_freq r) 1 * (9 / 10))) \<and>
         (chosen_rels = [''P31''] \<and> rel_freq r ''P31'' = Some [100] \<and>
          max_log_freq r = default_max_log_freq \<longrightarrow>
          rank_item r u (e # rest) = Inr (chosen_path, min (ln 100 / 8) 1 * (9 / 10)) \<and>
          \<bar>min (ln 100 / 8) 1 * (9 / 10) - 518 / 1000\<bar> < (1 / 2000 :: real))"
proof (intro conjI impI)
  assume "chosen_rels \<noteq> [] \<and> (\<forall>rel \<in> set chosen_rels. rel_freq r rel \<noteq> Some []) \<and>
          0 < raw_freq r chosen_rels \<and> max_log_freq r \<noteq> 0"
  then have "confidence r chosen_rels =
      Inr (min (ln (raw_freq r chosen_rels) / max_log_freq r) 1 * (9 / 10))"
    by (intro confidence_defined) simp_all
  with rank_item_chosen [OF assms, of rest]
  show "rank_item r u (e # rest) =
      Inr (chosen_path, min (ln (raw_freq r chosen_rels) / max_log_freq r) 1 * (9 / 10))"
    by simp
next
  assume ex: "chosen_rels = [''P31''] \<and> rel_freq r ''P31'' = Some [100] \<and>
          max_log_freq r = default_max_log_freq"
  then have "confidence r chosen_rels = Inr (min (ln 100 / 8) 1 * (9 / 10))"
    by (simp add: confidence_def first_freq_def math_log_def default_max_log_freq_def)
  with rank_item_chosen [OF assms, of rest]
  show "rank_item r u (e # rest) = Inr (chosen_path, min (ln 100 / 8) 1 * (9 / 10))"
    by simp
next
  show "\<bar>min (ln 100 / 8) 1 * (9 / 10) - 518 / 1000\<bar> < (1 / 2000 :: real)"
    by (rule example_confidence_approx)
qed

theorem confidence_formula_witness:
  "rank_item spec_example ''hi'' [Entity ''Q1''] =
     Inr ([''P31''], min (ln (raw_freq spec_example [''P31'']) / max_log_freq spec_example) 1 * (9 / 10)) \<and>
   rank_item spec_example ''hi'' [Entity ''Q1''] =
     Inr ([''P31''], min (ln 100 / 8) 1 * (9 / 10)) \<and>
   \<bar>min (ln 100 / 8) 1 * (9 / 10) - 518 / 1000\<bar> < (1 / 2000 :: real)"
proof -
  have tables: "rel_freq spec_example ''P31'' = Some [100]"
    "max_log_freq spec_example = default_max_log_freq"
    by (simp_all add: spec_example_def example_ranker_def)
  have pre: "[''P31''] \<noteq> ([] :: string list) \<and>
      (\<forall>rel \<in> set [''P31'']. rel_freq spec_example rel \<noteq> Some []) \<and>
      0 < raw_freq spec_example [''P31''] \<and> max_log_freq spec_example \<noteq> 0"
    by (simp add: tables spec_example_raw_freq default_max_log_freq_def)
  from confidence_formula [OF spec_example_retrieval, of "[]"] pre tables
  show ?thesis
    by blast
qed

text \<open>
  C7 (as the claim states it, refuted). Statistic mode, the table of the specification's
  example; the graph confirms only the path \<open>P21\<close>, whose score 0.5 is below the score
  0.9 of \<open>P31\<close>. The item returns \<open>P21\<close>, which is not among the paths with the highest
  precomputed score.
\<close>

theorem returned_path_not_top_scored_counterexample:
  "use_path_stat second_path_example \<and>
   entity_types second_path_example ''Q1'' = Inr [''TypeA''] \<and>
   rank_item second_path_example ''hi'' [Entity ''Q1''] =
     Inr ([''P21''], min (ln 100 / 8) 1 * (9 / 10)) \<and>
   \<not> top_scored second_path_example [''TypeA''] [''P21'']"
proof -
  have stat: "use_path_stat second_path_example"
    by (simp add: second_path_example_def example_ranker_def)
  have types: "entity_types second_path_example ''Q1'' = Inr [''TypeA'']"
    by (simp add: second_path_example_def example_ranker_def graph_service_def
        entity_types_def unlayer_def)
  have item: "rank_item second_path_example ''hi'' [Entity ''Q1''] =
      Inr ([''P21''], min (ln 100 / 8) 1 * (9 / 10))"
    by (simp add: second_path_example_def ranker_defs)
  have pairs: "table_pairs second_path_example [''TypeA''] =
      [([''P31''], 9 / 10), ([''P21''], 5 / 10)]"
    by (simp add: second_path_example_def example_ranker_def table_pairs_def lookup_paths_def)
  have "\<not> top_scored second_path_example [''TypeA''] [''P21'']"
    unfolding top_scored_def pairs by simp
  with stat types item show ?thesis by simp
qed

text \<open>
  C7 (amended). In statistic mode the list passed to graph retrieval is the list of
  candidates: the (path, score) entries of the table for the types of the entity, each
  once, in descending order of their table scores, with the scores dropped; its first
  path is among the paths with the highest precomputed score.
\<close>

theorem statistic_mode_top_path:
  assumes "use_path_stat r"
    and "set_order_ok r"
    and "candidate_paths r types = Inr cands"
    and "cands \<noteq> []"
  shows "top_paths r u cands = map fst (sorted_candidates r types) \<and>
         set (sorted_candidates r types) = set (table_pairs r types) \<and>
         distinct (sorted_candidates r types) \<and>
         sorted_wrt (\<lambda>x y. snd y \<le> snd x) (sorted_candidates r types) \<and>
         top_scored r types (hd (top_paths r u cands))"
proof -
  let ?xs = "sorted_candidates r types"
  from candidate_paths_value [OF assms(3)] assms(1)
  have cands: "cands = map fst ?xs"
    by (simp add: stat_candidates_def)
  with assms(1) have top: "top_paths r u cands = map fst ?xs"
    by (simp add: top_paths_def)
  from cands assms(4) have ne: "?xs \<noteq> []" by auto
  have set_eq: "set ?xs = set (table_pairs r types)"
    using assms(2) by (rule sorted_candidates_set)
  have desc: "sorted_wrt (\<lambda>x y. snd y \<le> snd x) ?xs"
    by (rule sorted_candidates_descending)
  have "hd ?xs \<in> set ?xs"
    using ne by (rule hd_in_set)
  then have mem: "hd ?xs \<in> set (table_pairs r types)"
    by (simp only: set_eq)
  have first: "fst (hd ?xs) = hd (top_paths r u cands)"
    using ne top by (simp add: hd_map)
  have best: "\<forall>y \<in> set (table_pairs r types). snd y \<le> snd (hd ?xs)"
  proof
    fix y assume "y \<in> set (table_pairs r types)"
    with set_eq have "y \<in> set ?xs" by simp
    from sorted_wrt_hd [OF desc ne this] show "snd y \<le> snd (hd ?xs)" by auto
  qed
  have "top_scored r types (hd (top_paths r u cands))"
    unfolding top_scored_def
    by (rule bexI [OF _ mem]) (rule conjI [OF first best])
  with top set_eq desc sorted_candidates_distinct [OF assms(2)] show ?thesis
    by (intro conjI)
qed

theorem statistic_mode_top_path_witness:
  "top_paths spec_example ''hi'' [[''P31''], [''P21'']] =
     map fst (sorted_candidates spec_example [''TypeA'']) \<and>
   sorted_candidates spec_example [''TypeA''] = [([''P31''], 9 / 10), ([''P21''], 5 / 10)] \<and>
   top_scored spec_example [''TypeA''] (hd (top_paths spec_example ''hi'' [[''P31''], [''P21'']]))"
proof -
  have stat: "use_path_stat spec_example"
    by (simp add: spec_example_def example_ranker_def)
  have ord: "set_order_ok spec_example"
    unfolding spec_example_def by (rule example_order_ok)
  have ne: "[[''P31''], [''P21'']] \<noteq> ([] :: path list)"
    by simp
  have val: "sorted_candidates spec_example [''TypeA''] = [([''P31''], 9 / 10), ([''P21''], 5 / 10)]"
    by (simp add: spec_example_def ranker_defs)
  from statistic_mode_top_path [OF stat ord spec_example_retrieval(3) ne, of "''hi''"] val
  show ?thesis by blast
qed

text \<open>
  C8 (as the claim states it, refuted). Statistic mode; the two types of the entity list
  the same path \<open>P31\<close>, with the scores 0.9 and 0.5. The candidate list holds the path
  twice.
\<close>

theorem duplicate_candidate_counterexample:
  "use_path_stat two_types_example \<and>
   entity_types two_types_example ''Q1'' = Inr [''TypeA'', ''TypeB''] \<and>
   candidate_paths two_types_example [''TypeA'', ''TypeB''] = Inr [[''P31''], [''P31'']] \<and>
   \<not> distinct [[''P31''], [''P31''] :: path]"
  by (simp add: two_types_example_def ranker_defs)

text \<open>
  C8 (amended). In ranking mode the candidate list holds each path of the table entries
  of the entity's types exactly once. In statistic mode the set is one of (path, score)
  pairs: the candidate list holds a path once for each distinct score that the path
  carries in these entries.
\<close>

theorem candidates_deduplicated:
  assumes "set_order_ok r"
    and "candidate_paths r types = Inr cands"
  shows "(\<not> use_path_stat r \<longrightarrow>
            distinct cands \<and> set cands = fst ` set (table_pairs r types)) \<and>
         (use_path_stat r \<longrightarrow> count_list cands p = score_count r types p)"
proof (intro conjI impI)
  assume "\<not> use_path_stat r"
  with candidate_paths_value [OF assms(2)]
  have cands: "cands = paths_order r (plain_candidates r types)" by simp
  show "distinct cands"
    unfolding cands using assms(1)
    by (simp add: paths_order_distinct plain_candidates_distinct)
  show "set cands = fst ` set (table_pairs r types)"
    unfolding cands using assms(1)
    by (simp add: paths_order_set plain_candidates_set)
next
  assume "use_path_stat r"
  with candidate_paths_value [OF assms(2)]
  have cands: "cands = map fst (sorted_candidates r types)"
    by (simp add: stat_candidates_def)
  show "count_list cands p = score_count r types p"
    unfolding cands score_count_def
    using sorted_candidates_distinct [OF assms(1)] sorted_candidates_set [OF assms(1)]
    by (rule count_list_paths)
qed

theorem candidates_deduplicated_witness:
  "distinct [[''P31''], [''P21''] :: path] \<and>
   set [[''P31''], [''P21''] :: path] = fst ` set (table_pairs ranking_example [''TypeA'']) \<and>
   count_list [[''P31''], [''P31'']] [''P31''] =
     score_count two_types_example [''TypeA'', ''TypeB''] [''P31''] \<and>
   score_count two_types_example [''TypeA'', ''TypeB''] [''P31''] = 2"
proof -
  have ord1: "set_order_ok ranking_example"
    unfolding ranking_example_def by (rule example_order_ok)
  have c1: "candidate_paths ranking_example [''TypeA''] = Inr [[''P31''], [''P21'']]"
    by (simp add: ranking_example_def ranker_defs)
  have m1: "\<not> use_path_stat ranking_example"
    by (simp add: ranking_example_def example_ranker_def)
  have ord2: "set_order_ok two_types_example"
    unfolding two_types_example_def by (rule example_order_ok)
  have c2: "candidate_paths two_types_example [''TypeA'', ''TypeB''] = Inr [[''P31''], [''P31'']]"
    by (simp add: two_types_example_def ranker_defs)
  have m2: "use_path_stat two_types_example"
    by (simp add: two_types_example_def example_ranker_def)
  have n: "score_count two_types_example [''TypeA'', ''TypeB''] [''P31''] = 2"
    by (simp add: two_types_example_def ranker_defs score_count_def table_pairs_def)
  from candidates_deduplicated [OF ord1 c1] m1
    candidates_deduplicated [OF ord2 c2, of "[''P31'']"] m2 n
  show ?thesis by blast
qed

end
